theory Spec2Isabelle
  imports Main "HOL-Library.Sublist"
begin

section \<open>Python values\<close>

text \<open>
  A Python \<open>str\<close> is represented by its UTF-8 encoding (a \<open>string\<close>, one \<open>char\<close> per
  byte), so the emoji and accented letters of the source are the byte sequences the source
  file holds. A \<open>bytes\<close> object is a \<open>string\<close> as well.
\<close>

abbreviation NL :: string where "NL \<equiv> [CHR 0x0A]"
abbreviation quote :: string where "quote \<equiv> [CHR 0x27]"
abbreviation a_grave :: string where "a_grave \<equiv> [CHR 0xC3, CHR 0xA0]"
abbreviation i_grave :: string where "i_grave \<equiv> [CHR 0xC3, CHR 0xAC]"
abbreviation e_mail :: string where "e_mail \<equiv> [CHR 0xF0, CHR 0x9F, CHR 0x93, CHR 0xA7]"
abbreviation green_circle :: string where "green_circle \<equiv> [CHR 0xF0, CHR 0x9F, CHR 0x9F, CHR 0xA2]"
abbreviation red_circle :: string where "red_circle \<equiv> [CHR 0xF0, CHR 0x9F, CHR 0x94, CHR 0xB4]"
abbreviation check_mark :: string where "check_mark \<equiv> [CHR 0xE2, CHR 0x9C, CHR 0x85]"
abbreviation key_sign :: string where "key_sign \<equiv> [CHR 0xF0, CHR 0x9F, CHR 0x94, CHR 0x91]"
abbreviation warning_sign :: string where
  "warning_sign \<equiv> [CHR 0xE2, CHR 0x9A, CHR 0xA0, CHR 0xEF, CHR 0xB8, CHR 0x8F]"
abbreviation no_entry :: string where "no_entry \<equiv> [CHR 0xE2, CHR 0x9B, CHR 0x94]"
abbreviation wastebasket :: string where
  "wastebasket \<equiv> [CHR 0xF0, CHR 0x9F, CHR 0x97, CHR 0x91, CHR 0xEF, CHR 0xB8, CHR 0x8F]"

text \<open>\<open>sep.join(parts)\<close> on a list of strings.\<close>

fun str_join :: "string \<Rightarrow> string list \<Rightarrow> string" where
  "str_join sep [] = []"
| "str_join sep [x] = x"
| "str_join sep (x # y # ys) = x @ sep @ str_join sep (y # ys)"

text \<open>The decimal text of an integer, as \<open>str\<close> and an f-string print it.\<close>

fun show_nat :: "nat \<Rightarrow> string" where
  "show_nat n =
     (if n < 10 then [''0123456789'' ! n]
      else show_nat (n div 10) @ [''0123456789'' ! (n mod 10)])"

declare show_nat.simps [simp del]

definition show_int :: "int \<Rightarrow> string" where
  "show_int i = (if i < 0 then CHR ''-'' # show_nat (nat (- i)) else show_nat (nat i))"

text \<open>
  Well-formed UTF-8 (the table of the Unicode standard, which the strict decoder of
  \<open>bytes.decode()\<close> follows): no overlong form, no surrogate, nothing above U+10FFFF.
\<close>

definition byte_in :: "char \<Rightarrow> nat \<Rightarrow> nat \<Rightarrow> bool" where
  "byte_in c lo hi = (lo \<le> of_char c \<and> (of_char c :: nat) \<le> hi)"

definition continuation :: "char \<Rightarrow> bool" where
  "continuation c = byte_in c 0x80 0xBF"

fun utf8_valid :: "string \<Rightarrow> bool" where
  "utf8_valid [] = True"
| "utf8_valid (a # bs) =
     (if byte_in a 0x00 0x7F then utf8_valid bs
      else if byte_in a 0xC2 0xDF then
        (case bs of
           b # r \<Rightarrow> continuation b \<and> utf8_valid r
         | _ \<Rightarrow> False)
      else if byte_in a 0xE0 0xEF then
        (case bs of
           b # c # r \<Rightarrow>
             byte_in b (if a = CHR 0xE0 then 0xA0 else 0x80) (if a = CHR 0xED then 0x9F else 0xBF)
             \<and> continuation c \<and> utf8_valid r
         | _ \<Rightarrow> False)
      else if byte_in a 0xF0 0xF4 then
        (case bs of
           b # c # d # r \<Rightarrow>
             byte_in b (if a = CHR 0xF0 then 0x90 else 0x80) (if a = CHR 0xF4 then 0x8F else 0xBF)
             \<and> continuation c \<and> continuation d \<and> utf8_valid r
         | _ \<Rightarrow> False)
      else False)"

text \<open>The code points of a string, each as a one-character string (iterating a \<open>str\<close>).\<close>

function codepoints :: "string \<Rightarrow> string list" where
  "codepoints [] = []"
| "codepoints (c # cs) = (c # takeWhile continuation cs) # codepoints (dropWhile continuation cs)"
  by pat_completeness auto
termination
  by (relation "measure length") (auto simp: length_dropWhile_le less_Suc_eq_le)

text \<open>
  What the provider returns and what \<open>json.loads\<close> builds: \<open>None\<close>, \<open>bool\<close>, \<open>int\<close>,
  \<open>str\<close>, \<open>list\<close> and \<open>dict\<close>. A dict is an association list read with \<open>map_of\<close> (the
  first entry of a key is the one that counts). JSON numbers with a fraction are left out:
  the user, alias and error resources of the Directory API carry none, and a \<open>float\<close>
  takes the same branches as an \<open>int\<close> everywhere below (no \<open>get\<close>, no iteration).
\<close>

datatype json =
    JNull
  | JBool bool
  | JInt int
  | JStr string
  | JArr "json list"
  | JObj "(string \<times> json) list"

text \<open>
  Exceptions, by the branch of \<open>handle_google_error\<close> that \<open>isinstance\<close> selects, with the
  text \<open>str(e)\<close>:
  \<^item> \<open>HttpError status content text\<close>: \<open>e.resp.status\<close>, the bytes \<open>e.content\<close>, \<open>str(e)\<close>;
  \<^item> \<open>FileNotFoundError text\<close>;
  \<^item> \<open>ValueError name text\<close>: \<open>ValueError\<close> or one of its subclasses, \<open>name\<close> its class name;
  \<^item> \<open>OtherException name text\<close>: any other \<open>Exception\<close>, \<open>name\<close> is \<open>type(e).__name__\<close>.
  Only instances of \<open>Exception\<close> are values of this type: \<open>except Exception\<close> does not
  catch \<open>KeyboardInterrupt\<close>, \<open>SystemExit\<close> or \<open>asyncio.CancelledError\<close>.
\<close>

datatype exn =
    HttpError int string string
  | FileNotFoundError string
  | ValueError string string
  | OtherException string string

text \<open>The try/except-free part of a computation: the first exception raised ends it.\<close>

definition and_then :: "exn + 'a \<Rightarrow> ('a \<Rightarrow> exn + 'b) \<Rightarrow> exn + 'b" where
  "and_then m f = (case m of Inl e \<Rightarrow> Inl e | Inr x \<Rightarrow> f x)"

fun type_name :: "json \<Rightarrow> string" where
  "type_name JNull = ''NoneType''"
| "type_name (JBool b) = ''bool''"
| "type_name (JInt i) = ''int''"
| "type_name (JStr s) = ''str''"
| "type_name (JArr xs) = ''list''"
| "type_name (JObj kvs) = ''dict''"

text \<open>Truth value of an object in \<open>if x\<close>, \<open>not x\<close> and \<open>x or y\<close>.\<close>

fun truthy :: "json \<Rightarrow> bool" where
  "truthy JNull = False"
| "truthy (JBool b) = b"
| "truthy (JInt i) = (i \<noteq> 0)"
| "truthy (JStr s) = (s \<noteq> [])"
| "truthy (JArr xs) = (xs \<noteq> [])"
| "truthy (JObj kvs) = (kvs \<noteq> [])"

text \<open>\<open>v.get(k, d)\<close>: only a dict has the method.\<close>

definition py_get :: "json \<Rightarrow> string \<Rightarrow> json \<Rightarrow> exn + json" where
  "py_get v k d =
     (case v of
        JObj kvs \<Rightarrow> Inr (case map_of kvs k of Some x \<Rightarrow> x | None \<Rightarrow> d)
      | _ \<Rightarrow> Inl (OtherException ''AttributeError''
                 (quote @ type_name v @ quote @ '' object has no attribute '' @ quote @ ''get'' @ quote)))"

text \<open>The keys of a dict, in insertion order.\<close>

definition dict_keys :: "(string \<times> json) list \<Rightarrow> string list" where
  "dict_keys kvs = rev (remdups (rev (map fst kvs)))"

text \<open>\<open>for x in v\<close>: the elements of a list, the characters of a str, the keys of a dict.\<close>

definition py_iter :: "json \<Rightarrow> exn + json list" where
  "py_iter v =
     (case v of
        JArr xs \<Rightarrow> Inr xs
      | JStr s \<Rightarrow> Inr (map JStr (codepoints s))
      | JObj kvs \<Rightarrow> Inr (map JStr (dict_keys kvs))
      | _ \<Rightarrow> Inl (OtherException ''TypeError''
                 (quote @ type_name v @ quote @ '' object is not iterable'')))"

definition py_len :: "json \<Rightarrow> exn + nat" where
  "py_len v =
     (case v of
        JArr xs \<Rightarrow> Inr (length xs)
      | JStr s \<Rightarrow> Inr (length (codepoints s))
      | JObj kvs \<Rightarrow> Inr (length (dict_keys kvs))
      | _ \<Rightarrow> Inl (OtherException ''TypeError''
                 (''object of type '' @ quote @ type_name v @ quote @ '' has no len()'')))"

text \<open>\<open>sep.join(v)\<close>: every item must be a str.\<close>

fun join_items :: "nat \<Rightarrow> json list \<Rightarrow> exn + string list" where
  "join_items i [] = Inr []"
| "join_items i (x # xs) =
     (case x of
        JStr s \<Rightarrow> (case join_items (Suc i) xs of Inl e \<Rightarrow> Inl e | Inr r \<Rightarrow> Inr (s # r))
      | _ \<Rightarrow> Inl (OtherException ''TypeError''
                 (''sequence item '' @ show_nat i @ '': expected str instance, ''
                  @ type_name x @ '' found'')))"

definition py_join :: "string \<Rightarrow> json \<Rightarrow> exn + string" where
  "py_join sep v =
     (case py_iter v of
        Inl e \<Rightarrow> Inl (OtherException ''TypeError'' ''can only join an iterable'')
      | Inr xs \<Rightarrow> and_then (join_items 0 xs) (\<lambda>parts. Inr (str_join sep parts)))"

section \<open>The provider, the configuration and the Python runtime\<close>

text \<open>
  The calls the handlers build on the client handle, each followed by \<open>.execute()\<close>:
  \<open>service.users().list(**kwargs)\<close>, \<open>service.users().get(userKey=k)\<close>,
  \<open>service.users().insert(body=b)\<close>, \<open>service.users().delete(userKey=k)\<close>,
  \<open>service.users().aliases().list(userKey=k)\<close>,
  \<open>service.users().aliases().insert(userKey=k, body=b)\<close> and
  \<open>service.users().aliases().delete(userKey=k, alias=a)\<close>.
\<close>

datatype request =
    UsersList "(string \<times> json) list"
  | UsersGet string
  | UsersInsert json
  | UsersDelete string
  | AliasesList string
  | AliasesInsert string json
  | AliasesDelete string string

text \<open>
  What a handler does besides returning: it calls \<open>get_directory_service()\<close> and it issues
  remote calls. A handler returns the list of these events, in order, with its result.
\<close>

datatype event = GetDirectoryService | Execute request

text \<open>
  Everything a handler reads that is not its argument:
  \<^item> the module constants \<open>SERVICE_ACCOUNT_FILE\<close>, \<open>ADMIN_EMAIL\<close> and \<open>CUSTOMER_ID\<close>, read from
    the process environment at import;
  \<^item> \<open>service_account file scopes subject\<close>: the exception that
    \<open>Credentials.from_service_account_file\<close>, \<open>with_subject\<close> or \<open>build\<close> raises, if any;
  \<^item> \<open>list_rejected kwargs\<close>: the exception with which \<open>service.users().list(**kwargs)\<close>
    refuses its arguments before any request exists, if any (the client library checks
    \<open>orderBy\<close> against the values the API allows); the other calls take a key, an alias or a
    body, which the library accepts as they are;
  \<^item> \<open>execute earlier r\<close>: what the provider answers to the call \<open>r\<close> after the calls
    \<open>earlier\<close> of the same invocation, a JSON value or an exception;
  \<^item> \<open>entropy i\<close>: the \<open>i\<close>-th number read from the system's random source;
  \<^item> three built-ins of Python that are taken as they are: \<open>py_repr\<close> is \<open>str()\<close> of a list
    or a dict; \<open>json_loads\<close> is \<open>json.loads\<close> on a str, which returns a value or raises
    (\<open>JSONDecodeError\<close> on text that is not JSON, but also a plain \<open>ValueError\<close> on an
    integer literal longer than the interpreter's digit limit, or \<open>RecursionError\<close>); and
    \<open>decode_error\<close> is the text of the \<open>UnicodeDecodeError\<close> for undecodable bytes.
\<close>

record env =
  SERVICE_ACCOUNT_FILE :: string
  ADMIN_EMAIL :: string
  CUSTOMER_ID :: string
  service_account :: "string \<Rightarrow> string list \<Rightarrow> string \<Rightarrow> exn option"
  list_rejected :: "(string \<times> json) list \<Rightarrow> exn option"
  execute :: "request list \<Rightarrow> request \<Rightarrow> exn + json"
  entropy :: "nat \<Rightarrow> nat"
  py_repr :: "json \<Rightarrow> string"
  json_loads :: "string \<Rightarrow> exn + json"
  decode_error :: "string \<Rightarrow> string"

text \<open>\<open>str(v)\<close>, which is what an f-string field prints.\<close>

definition py_str :: "env \<Rightarrow> json \<Rightarrow> string" where
  "py_str E v =
     (case v of
        JNull \<Rightarrow> ''None''
      | JBool b \<Rightarrow> (if b then ''True'' else ''False'')
      | JInt i \<Rightarrow> show_int i
      | JStr s \<Rightarrow> s
      | _ \<Rightarrow> py_repr E v)"

text \<open>\<open>content.decode()\<close>: strict UTF-8.\<close>

definition bytes_decode :: "env \<Rightarrow> string \<Rightarrow> exn + string" where
  "bytes_decode E content =
     (if utf8_valid content then Inr content
      else Inl (ValueError ''UnicodeDecodeError'' (decode_error E content)))"

section \<open>Client handle\<close>

definition SCOPES :: "string list" where
  "SCOPES =
     [''https://www.googleapis.com/auth/admin.directory.user'',
      ''https://www.googleapis.com/auth/admin.directory.group'',
      ''https://www.googleapis.com/auth/admin.directory.orgunit'',
      ''https://www.googleapis.com/auth/admin.directory.user.alias'']"

definition get_directory_service :: "env \<Rightarrow> exn + unit" where
  "get_directory_service E =
     (if ADMIN_EMAIL E = [] then
        Inl (ValueError ''ValueError''
          (''GOOGLE_ADMIN_EMAIL non configurato. ''
           @ ''Impostalo con l'email dell'admin che ha la delega domain-wide.''))
      else
        (case service_account E (SERVICE_ACCOUNT_FILE E) SCOPES (ADMIN_EMAIL E) of
           Some e \<Rightarrow> Inl e
         | None \<Rightarrow> Inr ()))"

section \<open>Error translation\<close>

text \<open>
  The body of the \<open>try\<close> block in the \<open>HttpError\<close> branch:
  \<open>json.loads(e.content.decode())\<close>, then \<open>detail.get("error", {}).get("message", str(e))\<close>.
\<close>

definition parse_message :: "env \<Rightarrow> string \<Rightarrow> string \<Rightarrow> exn + json" where
  "parse_message E content text =
     and_then (bytes_decode E content) (\<lambda>decoded.
     and_then (json_loads E decoded) (\<lambda>detail.
     and_then (py_get detail ''error'' (JObj [])) (\<lambda>err.
     py_get err ''message'' (JStr text))))"

text \<open>
  \<open>except (json.JSONDecodeError, AttributeError)\<close>: the class of an exception is read from
  its name (no subclass of the two is raised in the block). \<open>UnicodeDecodeError\<close> and a
  plain \<open>ValueError\<close> are instances of \<open>ValueError\<close> but not of \<open>JSONDecodeError\<close>.
\<close>

definition parse_error_caught :: "exn \<Rightarrow> bool" where
  "parse_error_caught e =
     (case e of
        ValueError name text \<Rightarrow> name = ''JSONDecodeError''
      | OtherException name text \<Rightarrow> name = ''AttributeError''
      | _ \<Rightarrow> False)"

text \<open>
  The whole \<open>try\<close> statement: a caught exception gives \<open>str(e)\<close> as the message, any other
  one leaves \<open>handle_google_error\<close>.
\<close>

definition error_message :: "env \<Rightarrow> string \<Rightarrow> string \<Rightarrow> exn + json" where
  "error_message E content text =
     (case parse_message E content text of
        Inl e \<Rightarrow> (if parse_error_caught e then Inr (JStr text) else Inl e)
      | Inr message \<Rightarrow> Inr message)"

definition error_map :: "int \<Rightarrow> string \<Rightarrow> string" where
  "error_map status message =
     (if status = 400 then ''Richiesta non valida: '' @ message
      else if status = 403 then
        ''Permessi insufficienti: '' @ message
        @ ''. Verifica la delega domain-wide del Service Account.''
      else if status = 404 then ''Risorsa non trovata: '' @ message
      else if status = 409 then
        ''Conflitto: '' @ message @ '' (l'utente/gruppo potrebbe gi'' @ a_grave @ '' esistere)''
      else if status = 429 then ''Rate limit superato. Riprova tra qualche secondo.''
      else ''Errore API Google (HTTP '' @ show_int status @ ''): '' @ message)"

definition handle_google_error :: "env \<Rightarrow> exn \<Rightarrow> exn + string" where
  "handle_google_error E e =
     (case e of
        HttpError status content text \<Rightarrow>
          and_then (error_message E content text)
            (\<lambda>message. Inr (error_map status (py_str E message)))
      | FileNotFoundError text \<Rightarrow>
          Inr (''File credenziali non trovato: '' @ SERVICE_ACCOUNT_FILE E @ ''. Verifica il path.'')
      | ValueError name text \<Rightarrow> Inr (''Errore configurazione: '' @ text)
      | OtherException name text \<Rightarrow> Inr (''Errore imprevisto: '' @ name @ '': '' @ text))"

section \<open>Temporary passwords\<close>

definition ascii_letters :: string where
  "ascii_letters = ''abcdefghijklmnopqrstuvwxyzABCDEFGHIJKLMNOPQRSTUVWXYZ''"

definition digits :: string where
  "digits = ''0123456789''"

text \<open>
  \<open>secrets.choice(seq)\<close> is \<open>seq[randbelow(len(seq))]\<close>; the number below \<open>len(seq)\<close> is the
  \<open>i\<close>-th draw of the random source reduced to that range.
\<close>

definition secrets_choice :: "env \<Rightarrow> nat \<Rightarrow> string \<Rightarrow> char" where
  "secrets_choice E i seq = seq ! (entropy E i mod length seq)"

text \<open>
  The argument is \<open>None\<close> when the caller passes no length (the default 16 applies).
  \<open>range(length)\<close> is empty for a length below 1.
\<close>

definition generate_temp_password :: "env \<Rightarrow> int option \<Rightarrow> string" where
  "generate_temp_password E len =
     (let length = (case len of None \<Rightarrow> 16 | Some n \<Rightarrow> n);
          chars = ascii_letters @ digits @ ''!@#$%&*''
      in map (\<lambda>i. secrets_choice E i chars) [0 ..< nat length])"

section \<open>Formatting a user\<close>

definition format_user :: "env \<Rightarrow> json \<Rightarrow> exn + string" where
  "format_user E user =
     and_then (py_get user ''name'' (JObj [])) (\<lambda>name.
     and_then (py_get user ''primaryEmail'' (JStr ''N/A'')) (\<lambda>primaryEmail.
     and_then (py_get name ''fullName'' (JStr ''N/A'')) (\<lambda>fullName.
     and_then (py_get user ''id'' (JStr ''N/A'')) (\<lambda>ident.
     and_then (py_get user ''suspended'' JNull) (\<lambda>suspended.
     and_then (py_get user ''isAdmin'' JNull) (\<lambda>isAdmin.
     and_then (py_get user ''lastLoginTime'' (JStr ''Mai'')) (\<lambda>lastLoginTime.
     and_then (py_get user ''creationTime'' (JStr ''N/A'')) (\<lambda>creationTime.
     let lines =
           [e_mail @ '' **'' @ py_str E primaryEmail @ ''**'',
            ''   Nome: '' @ py_str E fullName,
            ''   ID: '' @ py_str E ident,
            ''   Stato: '' @ (if \<not> truthy suspended then green_circle @ '' Attivo''
                              else red_circle @ '' Sospeso''),
            ''   Admin: '' @ (if truthy isAdmin then ''S'' @ i_grave else ''No''),
            ''   Ultimo accesso: '' @ py_str E lastLoginTime,
            ''   Creazione: '' @ py_str E creationTime]
     in
     and_then (py_get user ''aliases'' (JArr [])) (\<lambda>aliases.
     and_then (if truthy aliases
               then and_then (py_join '', '' aliases) (\<lambda>joined. Inr (lines @ [''   Alias: '' @ joined]))
               else Inr lines) (\<lambda>lines.
     and_then (py_get user ''orgUnitPath'' (JStr ''/'')) (\<lambda>org.
     Inr (str_join NL
            (if truthy org then lines @ [''   Unit'' @ a_grave @ '' org.: '' @ py_str E org]
             else lines)))))))))))))"

section \<open>Tool handlers\<close>

text \<open>
  Each handler takes the record the framework has validated. An \<open>Optional\<close> field is an
  \<open>option\<close>. A handler returns its events and either the string it returns or the
  exception that leaves it.
\<close>

type_synonym outcome = "event list \<times> (exn + string)"

text \<open>\<open>try: body except Exception as e: return handle_google_error(e)\<close>.\<close>

definition try_except :: "env \<Rightarrow> outcome \<Rightarrow> outcome" where
  "try_except E body =
     (case snd body of
        Inl e \<Rightarrow> (fst body, handle_google_error E e)
      | Inr text \<Rightarrow> body)"

text \<open>Truth value of an optional str and of an optional bool; optional fields as JSON.\<close>

definition str_given :: "string option \<Rightarrow> bool" where
  "str_given x = (case x of None \<Rightarrow> False | Some s \<Rightarrow> s \<noteq> [])"

definition flag_set :: "bool option \<Rightarrow> bool" where
  "flag_set x = (case x of None \<Rightarrow> False | Some b \<Rightarrow> b)"

definition opt_str :: "string option \<Rightarrow> json" where
  "opt_str x = (case x of None \<Rightarrow> JNull | Some s \<Rightarrow> JStr s)"

definition opt_int :: "int option \<Rightarrow> json" where
  "opt_int x = (case x of None \<Rightarrow> JNull | Some i \<Rightarrow> JInt i)"

definition opt_bool :: "bool option \<Rightarrow> json" where
  "opt_bool x = (case x of None \<Rightarrow> JNull | Some b \<Rightarrow> JBool b)"

subsection \<open>gw_list_users\<close>

record ListUsersInput =
  query :: "string option"
  max_results :: "int option"
  order_by :: "string option"
  show_suspended :: "bool option"

text \<open>\<open>[u for u in users if not u.get("suspended")]\<close>, element by element.\<close>

fun keep_active :: "json list \<Rightarrow> exn + json list" where
  "keep_active [] = Inr []"
| "keep_active (u # us) =
     (case py_get u ''suspended'' JNull of
        Inl e \<Rightarrow> Inl e
      | Inr suspended \<Rightarrow>
          (case keep_active us of
             Inl e \<Rightarrow> Inl e
           | Inr kept \<Rightarrow> Inr (if \<not> truthy suspended then u # kept else kept)))"

text \<open>The loop that appends \<open>format_user(user)\<close> and \<open>"---"\<close> for each user.\<close>

fun format_each :: "env \<Rightarrow> json list \<Rightarrow> exn + string list" where
  "format_each E [] = Inr []"
| "format_each E (user # us) =
     (case format_user E user of
        Inl e \<Rightarrow> Inl e
      | Inr block \<Rightarrow>
          (case format_each E us of
             Inl e \<Rightarrow> Inl e
           | Inr rest \<Rightarrow> Inr (block # ''---'' # rest)))"

definition no_users_found :: string where
  "no_users_found = ''Nessun utente trovato con i criteri specificati.''"

definition list_users_text :: "env \<Rightarrow> json \<Rightarrow> exn + string" where
  "list_users_text E users =
     (if \<not> truthy users then Inr no_users_found
      else
        and_then (py_len users) (\<lambda>n.
        and_then (py_iter users) (\<lambda>us.
        and_then (format_each E us) (\<lambda>blocks.
        Inr (str_join NL ((''## Utenti trovati: '' @ show_nat n @ NL) # blocks))))))"

definition gw_list_users :: "env \<Rightarrow> ListUsersInput \<Rightarrow> outcome" where
  "gw_list_users E params =
     try_except E
       (case get_directory_service E of
          Inl e \<Rightarrow> ([GetDirectoryService], Inl e)
        | Inr service \<Rightarrow>
            (let kwargs =
                   [(''customer'', JStr (CUSTOMER_ID E)),
                    (''maxResults'', opt_int (max_results params)),
                    (''orderBy'', opt_str (order_by params))]
                   @ (if str_given (query params) then [(''query'', opt_str (query params))] else []);
                 call = UsersList kwargs
             in case list_rejected E kwargs of
                  Some e \<Rightarrow> ([GetDirectoryService], Inl e)
                | None \<Rightarrow>
                    ([GetDirectoryService, Execute call],
                     and_then (execute E [] call) (\<lambda>result.
                     and_then (py_get result ''users'' (JArr [])) (\<lambda>users.
                     and_then
                       (if \<not> flag_set (show_suspended params)
                        then and_then (py_iter users) (\<lambda>us.
                             and_then (keep_active us) (\<lambda>kept. Inr (JArr kept)))
                        else Inr users)
                       (list_users_text E))))))"

subsection \<open>gw_get_user\<close>

record GetUserInput =
  user_key :: string

definition gw_get_user :: "env \<Rightarrow> GetUserInput \<Rightarrow> outcome" where
  "gw_get_user E params =
     try_except E
       (case get_directory_service E of
          Inl e \<Rightarrow> ([GetDirectoryService], Inl e)
        | Inr service \<Rightarrow>
            (let call = UsersGet (GetUserInput.user_key params)
             in ([GetDirectoryService, Execute call],
                 and_then (execute E [] call) (format_user E))))"

subsection \<open>gw_create_user\<close>

record CreateUserInput =
  primary_email :: string
  first_name :: string
  last_name :: string
  password :: "string option"
  org_unit_path :: "string option"
  change_password_at_next_login :: "bool option"
  recovery_email :: "string option"
  recovery_phone :: "string option"

definition change_password_warning :: string where
  "change_password_warning =
     warning_sign @ '' L'utente dovr'' @ a_grave @ '' cambiarla al primo accesso.''"

text \<open>The text returned after the insert call, from the formatted record.\<close>

definition created_text :: "string \<Rightarrow> string \<Rightarrow> bool option \<Rightarrow> string" where
  "created_text block pw flag =
     check_mark @ '' Utente creato con successo!'' @ NL @ NL
     @ block @ NL @ NL
     @ key_sign @ '' **Password temporanea**: `'' @ pw @ ''`'' @ NL
     @ (if flag_set flag then change_password_warning else []) @ NL @ NL
     @ ''Comunica le credenziali al cliente in modo sicuro.''"

definition create_user_body :: "CreateUserInput \<Rightarrow> string \<Rightarrow> json" where
  "create_user_body params pw =
     JObj ([(''primaryEmail'', JStr (primary_email params)),
            (''name'', JObj [(''givenName'', JStr (first_name params)),
                            (''familyName'', JStr (last_name params))]),
            (''password'', JStr pw),
            (''changePasswordAtNextLogin'', opt_bool (change_password_at_next_login params)),
            (''orgUnitPath'', opt_str (org_unit_path params))]
           @ (if str_given (recovery_email params)
              then [(''recoveryEmail'', opt_str (recovery_email params))] else [])
           @ (if str_given (recovery_phone params)
              then [(''recoveryPhone'', opt_str (recovery_phone params))] else []))"

text \<open>\<open>params.password or generate_temp_password()\<close>.\<close>

definition chosen_password :: "env \<Rightarrow> CreateUserInput \<Rightarrow> string" where
  "chosen_password E params =
     (case password params of
        None \<Rightarrow> generate_temp_password E None
      | Some p \<Rightarrow> (if p \<noteq> [] then p else generate_temp_password E None))"

definition gw_create_user :: "env \<Rightarrow> CreateUserInput \<Rightarrow> outcome" where
  "gw_create_user E params =
     try_except E
       (case get_directory_service E of
          Inl e \<Rightarrow> ([GetDirectoryService], Inl e)
        | Inr service \<Rightarrow>
            (let pw = chosen_password E params;
                 call = UsersInsert (create_user_body params pw)
             in ([GetDirectoryService, Execute call],
                 and_then (execute E [] call) (\<lambda>created.
                 and_then (format_user E created) (\<lambda>block.
                 Inr (created_text block pw (change_password_at_next_login params)))))))"

subsection \<open>gw_delete_user\<close>

record DeleteUserInput =
  user_key :: string
  confirm :: bool

definition deletion_cancelled :: string where
  "deletion_cancelled =
     no_entry @ '' Eliminazione annullata. Per procedere, imposta confirm=True.'' @ NL
     @ ''Ricorda: l'utente sar'' @ a_grave
     @ '' nel cestino per 20 giorni prima dell'eliminazione definitiva.''"

definition deleted_text :: "string \<Rightarrow> string \<Rightarrow> string" where
  "deleted_text user_name user_email =
     wastebasket @ '' Utente eliminato: **'' @ user_name @ ''** ('' @ user_email @ '')'' @ NL @ NL
     @ ''L'utente rester'' @ a_grave @ '' nel cestino per 20 giorni e potr'' @ a_grave
     @ '' essere ripristinato.'' @ NL
     @ ''Dopo 20 giorni l'eliminazione sar'' @ a_grave @ '' definitiva.''"

text \<open>The two reads of the record between the get call and the delete call.\<close>

definition display_data :: "env \<Rightarrow> string \<Rightarrow> json \<Rightarrow> exn + (string \<times> string)" where
  "display_data E key user =
     and_then (py_get user ''primaryEmail'' (JStr key)) (\<lambda>user_email.
     and_then (py_get user ''name'' (JObj [])) (\<lambda>name.
     and_then (py_get name ''fullName'' (JStr ''N/A'')) (\<lambda>user_name.
     Inr (py_str E user_name, py_str E user_email))))"

definition gw_delete_user :: "env \<Rightarrow> DeleteUserInput \<Rightarrow> outcome" where
  "gw_delete_user E params =
     (if \<not> confirm params then ([], Inr deletion_cancelled)
      else
        try_except E
          (case get_directory_service E of
             Inl e \<Rightarrow> ([GetDirectoryService], Inl e)
           | Inr service \<Rightarrow>
               (let get = UsersGet (DeleteUserInput.user_key params);
                    delete = UsersDelete (DeleteUserInput.user_key params)
                in case and_then (execute E [] get)
                          (display_data E (DeleteUserInput.user_key params)) of
                     Inl e \<Rightarrow> ([GetDirectoryService, Execute get], Inl e)
                   | Inr (user_name, user_email) \<Rightarrow>
                       ([GetDirectoryService, Execute get, Execute delete],
                        and_then (execute E [get] delete)
                          (\<lambda>reply. Inr (deleted_text user_name user_email))))))"

subsection \<open>gw_manage_alias\<close>

datatype AliasAction = ADD | REMOVE | LIST

record ManageAliasInput =
  user_key :: string
  action :: AliasAction
  alias_email :: "string option"

definition alias_email_missing :: string where
  "alias_email_missing =
     warning_sign @ '' Specifica alias_email per aggiungere o rimuovere un alias.''"

text \<open>The loop that appends \<open>f"- {a.get('alias', 'N/A')}"\<close> for each alias.\<close>

fun alias_lines :: "env \<Rightarrow> json list \<Rightarrow> exn + string list" where
  "alias_lines E [] = Inr []"
| "alias_lines E (a # items) =
     (case py_get a ''alias'' (JStr ''N/A'') of
        Inl e \<Rightarrow> Inl e
      | Inr alias \<Rightarrow>
          (case alias_lines E items of
             Inl e \<Rightarrow> Inl e
           | Inr rest \<Rightarrow> Inr ((''- '' @ py_str E alias) # rest)))"

text \<open>
  The last branch is the \<open>elif\<close> on \<open>REMOVE\<close>: the enumeration has three members, so the
  \<open>elif\<close> holds whenever it is reached.
\<close>

definition gw_manage_alias :: "env \<Rightarrow> ManageAliasInput \<Rightarrow> outcome" where
  "gw_manage_alias E params =
     try_except E
       (case get_directory_service E of
          Inl e \<Rightarrow> ([GetDirectoryService], Inl e)
        | Inr service \<Rightarrow>
            (let key = ManageAliasInput.user_key params;
                 alias = (case alias_email params of None \<Rightarrow> [] | Some a \<Rightarrow> a)
             in if action params = LIST then
                  ([GetDirectoryService, Execute (AliasesList key)],
                   and_then (execute E [] (AliasesList key)) (\<lambda>result.
                   and_then (py_get result ''aliases'' (JArr [])) (\<lambda>aliases.
                   if \<not> truthy aliases then Inr (''Nessun alias configurato per '' @ key @ ''.'')
                   else
                     and_then (py_iter aliases) (\<lambda>items.
                     and_then (alias_lines E items) (\<lambda>lines.
                     Inr (str_join NL ((''## Alias per '' @ key @ NL) # lines)))))))
                else if \<not> str_given (alias_email params) then
                  ([GetDirectoryService], Inr alias_email_missing)
                else if action params = ADD then
                  (let call = AliasesInsert key (JObj [(''alias'', JStr alias)])
                   in ([GetDirectoryService, Execute call],
                       and_then (execute E [] call) (\<lambda>reply.
                       Inr (check_mark @ '' Alias **'' @ alias @ ''** aggiunto a '' @ key))))
                else
                  (let call = AliasesDelete key alias
                   in ([GetDirectoryService, Execute call],
                       and_then (execute E [] call) (\<lambda>reply.
                       Inr (wastebasket @ '' Alias **'' @ alias @ ''** rimosso da '' @ key))))))"

section \<open>A scripted provider\<close>

text \<open>
  A concrete environment on which the handlers are run below: the handle is obtained, the
  provider knows two users (the second one suspended), answers a get for \<open>n@x.com\<close> with a
  record whose name is \<open>null\<close>, echoes an inserted record, and fails the alias list call
  with a status 500 whose body is the single byte \<open>0xFF\<close>. The list call is refused for a
  sort field that is not one of the three the API allows. No error body of the script is
  JSON text, so \<open>json_loads\<close> has only \<open>JSONDecodeError\<close> to give; no list or dict is ever
  printed, so \<open>py_repr\<close> is a placeholder.
\<close>

definition user_a :: json where
  "user_a =
     JObj [(''primaryEmail'', JStr ''a@x.com''),
           (''name'', JObj [(''fullName'', JStr ''A B'')]),
           (''id'', JStr ''1''),
           (''suspended'', JBool False)]"

text \<open>The text \<open>format_user\<close> gives for the first user.\<close>

definition user_a_block :: string where
  "user_a_block =
     str_join NL
       [e_mail @ '' **a@x.com**'',
        ''   Nome: A B'',
        ''   ID: 1'',
        ''   Stato: '' @ green_circle @ '' Attivo'',
        ''   Admin: No'',
        ''   Ultimo accesso: Mai'',
        ''   Creazione: N/A'',
        ''   Unit'' @ a_grave @ '' org.: /'']"

definition user_b :: json where
  "user_b =
     JObj [(''primaryEmail'', JStr ''b@x.com''),
           (''name'', JObj [(''fullName'', JStr ''B C'')]),
           (''id'', JStr ''2''),
           (''suspended'', JBool True)]"

definition user_n :: json where
  "user_n = JObj [(''primaryEmail'', JStr ''n@x.com''), (''name'', JNull)]"

definition scripted_execute :: "request list \<Rightarrow> request \<Rightarrow> exn + json" where
  "scripted_execute earlier r =
     (case r of
        UsersList kwargs \<Rightarrow> Inr (JObj [(''users'', JArr [user_a, user_b])])
      | UsersGet key \<Rightarrow>
          (if key = ''a@x.com'' then Inr user_a
           else if key = ''n@x.com'' then Inr user_n
           else Inl (HttpError 404 ''Not Found'' ''<HttpError 404 when requesting users returned Not Found>''))
      | UsersInsert body \<Rightarrow> Inr body
      | UsersDelete key \<Rightarrow> Inr (JStr [])
      | AliasesList key \<Rightarrow> Inl (HttpError 500 [CHR 0xFF] ''<HttpError 500 when requesting aliases returned Server Error>'')
      | AliasesInsert key body \<Rightarrow> Inr body
      | AliasesDelete key alias \<Rightarrow> Inr (JStr []))"

definition scripted_list_rejected :: "(string \<times> json) list \<Rightarrow> exn option" where
  "scripted_list_rejected kwargs =
     (case map_of kwargs ''orderBy'' of
        Some (JStr field) \<Rightarrow>
          (if field \<in> set [''email'', ''familyName'', ''givenName''] then None
           else Some (OtherException ''TypeError''
                  (''Parameter orderBy value '' @ field @ '' is not an allowed value'')))
      | _ \<Rightarrow> None)"

definition scripted_env :: env where
  "scripted_env =
     \<lparr>SERVICE_ACCOUNT_FILE = ''credentials.json'',
      ADMIN_EMAIL = ''admin@x.com'',
      CUSTOMER_ID = ''my_customer'',
      service_account = (\<lambda>file scopes subject. None),
      list_rejected = scripted_list_rejected,
      execute = scripted_execute,
      entropy = (\<lambda>i. 7 * i + 3),
      py_repr = (\<lambda>v. ''[...]''),
      json_loads = (\<lambda>s. Inl (ValueError ''JSONDecodeError''
        ''Expecting value: line 1 column 1 (char 0)'')),
      decode_error = (\<lambda>content. quote @ ''utf-8'' @ quote
        @ '' codec can't decode byte 0xff in position 0: invalid start byte'')\<rparr>"

text \<open>The same environment with \<open>GOOGLE_ADMIN_EMAIL\<close> unset.\<close>

definition unconfigured_env :: env where
  "unconfigured_env = scripted_env\<lparr>ADMIN_EMAIL := []\<rparr>"

section \<open>Properties\<close>

lemma and_then_Inr [simp]: "and_then (Inr x) f = f x"
  by (simp add: and_then_def)

lemma and_then_Inl [simp]: "and_then (Inl e) f = Inl e"
  by (simp add: and_then_def)

lemma try_except_fst [simp]: "fst (try_except E body) = fst body"
  by (simp add: try_except_def split: sum.splits)

lemma try_except_Inl [simp]: "try_except E (events, Inl e) = (events, handle_google_error E e)"
  by (simp add: try_except_def)

lemma try_except_Inr [simp]: "try_except E (events, Inr text) = (events, Inr text)"
  by (simp add: try_except_def)

lemma scripted_service [simp]: "get_directory_service scripted_env = Inr ()"
  by (simp add: get_directory_service_def scripted_env_def)

lemma unconfigured_service [simp]:
  "get_directory_service unconfigured_env =
     Inl (ValueError ''ValueError''
       (''GOOGLE_ADMIN_EMAIL non configurato. ''
        @ ''Impostalo con l'email dell'admin che ha la delega domain-wide.''))"
  by (simp add: get_directory_service_def unconfigured_env_def)

lemma scripted_env_fields [simp]:
  "SERVICE_ACCOUNT_FILE scripted_env = ''credentials.json''"
  "ADMIN_EMAIL scripted_env = ''admin@x.com''"
  "CUSTOMER_ID scripted_env = ''my_customer''"
  "list_rejected scripted_env = scripted_list_rejected"
  "execute scripted_env = scripted_execute"
  "entropy scripted_env = (\<lambda>i. 7 * i + 3)"
  "py_repr scripted_env = (\<lambda>v. ''[...]'')"
  "json_loads scripted_env = (\<lambda>s. Inl (ValueError ''JSONDecodeError''
     ''Expecting value: line 1 column 1 (char 0)''))"
  "decode_error scripted_env = (\<lambda>content. quote @ ''utf-8'' @ quote
     @ '' codec can't decode byte 0xff in position 0: invalid start byte'')"
  by (simp_all add: scripted_env_def)

lemma unconfigured_env_fields [simp]:
  "SERVICE_ACCOUNT_FILE unconfigured_env = ''credentials.json''"
  "ADMIN_EMAIL unconfigured_env = []"
  "execute unconfigured_env = scripted_execute"
  by (simp_all add: unconfigured_env_def scripted_env_def)

subsection \<open>The error translator\<close>

text \<open>
  The three renderings the specification names. On a transport error whose body is
  well-formed UTF-8 and on which \<open>json.loads\<close> returns or raises \<open>JSONDecodeError\<close>, the
  translator returns the entry of the map for the status; on an error that is not a
  transport error it returns a string; and it raises in no case but an undecodable body
  or an exception of \<open>json.loads\<close> that the \<open>except\<close> clause does not name.
\<close>

lemma error_map_403:
  "error_map 403 message
     = ''Permessi insufficienti: '' @ message
       @ ''. Verifica la delega domain-wide del Service Account.''"
  by (simp add: error_map_def)

lemma error_map_429:
  "error_map 429 message = ''Rate limit superato. Riprova tra qualche secondo.''"
  by (simp add: error_map_def)

lemma error_map_other:
  "status \<notin> {400, 403, 404, 409, 429} \<Longrightarrow>
   error_map status message
     = ''Errore API Google (HTTP '' @ show_int status @ ''): '' @ message"
  by (simp add: error_map_def)

lemma py_get_raises_caught: "py_get v k d = Inl x \<Longrightarrow> parse_error_caught x"
  by (auto simp: py_get_def parse_error_caught_def split: json.splits)

lemma parse_message_undecodable:
  "\<not> utf8_valid content \<Longrightarrow>
   parse_message E content text
     = Inl (ValueError ''UnicodeDecodeError'' (decode_error E content))"
  by (simp add: parse_message_def bytes_decode_def)

lemma error_message_undecodable:
  "\<not> utf8_valid content \<Longrightarrow>
   error_message E content text
     = Inl (ValueError ''UnicodeDecodeError'' (decode_error E content))"
  by (simp add: error_message_def parse_message_undecodable parse_error_caught_def)

lemma parse_message_raises:
  assumes "parse_message E content text = Inl x" and "\<not> parse_error_caught x"
  shows "\<not> utf8_valid content \<or> json_loads E content = Inl x"
proof (cases "utf8_valid content")
  case False
  then show ?thesis by simp
next
  case True
  show ?thesis
  proof (cases "json_loads E content")
    case (Inl y)
    with True assms(1) show ?thesis
      by (simp add: parse_message_def bytes_decode_def)
  next
    case (Inr detail)
    with True assms(1) have "\<exists>v k d. py_get v k d = Inl x"
      by (cases "py_get detail ''error'' (JObj [])")
        (auto simp: parse_message_def bytes_decode_def)
    with assms(2) show ?thesis
      by (blast dest: py_get_raises_caught)
  qed
qed

lemma error_message_decodable:
  assumes "utf8_valid content"
      and "\<forall>x. json_loads E content = Inl x \<longrightarrow> parse_error_caught x"
  shows "\<exists>message. error_message E content text = Inr message"
proof (cases "parse_message E content text")
  case (Inr message)
  then show ?thesis by (simp add: error_message_def)
next
  case (Inl x)
  with assms have "parse_error_caught x"
    by (blast dest: parse_message_raises)
  with Inl show ?thesis by (simp add: error_message_def)
qed

lemma handle_google_error_decodable:
  assumes "utf8_valid content"
      and "\<forall>x. json_loads E content = Inl x \<longrightarrow> parse_error_caught x"
  shows "\<exists>message. handle_google_error E (HttpError status content text)
     = Inr (error_map status message)"
proof -
  from assms obtain m where "error_message E content text = Inr m"
    using error_message_decodable by blast
  then have "handle_google_error E (HttpError status content text)
      = Inr (error_map status (py_str E m))"
    by (simp add: handle_google_error_def)
  then show ?thesis ..
qed

lemma handle_google_error_not_transport:
  "(\<forall>status content text. e \<noteq> HttpError status content text) \<Longrightarrow>
   \<exists>translated. handle_google_error E e = Inr translated"
  by (cases e) (simp_all add: handle_google_error_def)

lemma handle_google_error_raises_only_on_body:
  assumes "handle_google_error E e = Inl raised"
  shows "\<exists>status content text. e = HttpError status content text
     \<and> (\<not> utf8_valid content
        \<or> (json_loads E content = Inl raised \<and> \<not> parse_error_caught raised))"
proof (cases e)
  case (HttpError status content msg)
  with assms have m: "error_message E content msg = Inl raised"
    by (cases "error_message E content msg") (simp_all add: handle_google_error_def)
  then have "parse_message E content msg = Inl raised \<and> \<not> parse_error_caught raised"
    by (cases "parse_message E content msg")
      (auto simp: error_message_def split: if_splits)
  with HttpError show ?thesis
    by (blast dest: parse_message_raises)
next
  case (FileNotFoundError msg)
  with assms show ?thesis by (simp add: handle_google_error_def)
next
  case (ValueError name msg)
  with assms show ?thesis by (simp add: handle_google_error_def)
next
  case (OtherException name msg)
  with assms show ?thesis by (simp add: handle_google_error_def)
qed

text \<open>
  The translator returns a string for every exception that is not a transport error, and
  for a transport error whose body is UTF-8 and on which \<open>json.loads\<close> returns or raises
  \<open>JSONDecodeError\<close>.
\<close>

lemma handle_google_error_returns:
  assumes "\<forall>status content text. e = HttpError status content text \<longrightarrow>
             utf8_valid content \<and> (\<forall>x. json_loads E content = Inl x \<longrightarrow> parse_error_caught x)"
  shows "\<exists>translated. handle_google_error E e = Inr translated"
proof (cases e)
  case (HttpError status content msg)
  with assms have "utf8_valid content"
    and "\<forall>x. json_loads E content = Inl x \<longrightarrow> parse_error_caught x"
    by simp_all
  then have "\<exists>message. handle_google_error E (HttpError status content msg)
      = Inr (error_map status message)"
    by (rule handle_google_error_decodable)
  with HttpError show ?thesis by blast
next
  case (FileNotFoundError msg)
  then show ?thesis by (simp add: handle_google_error_def)
next
  case (ValueError name msg)
  then show ?thesis by (simp add: handle_google_error_def)
next
  case (OtherException name msg)
  then show ?thesis by (simp add: handle_google_error_def)
qed

subsection \<open>Deleting a user\<close>

text \<open>
  C1. With \<open>confirm=False\<close> the handler has no event at all, so neither the get call nor
  the delete call is issued, and it returns the cancellation notice, a constant of the
  handler, whatever the environment is.
\<close>

theorem delete_user_unconfirmed:
  "\<not> confirm params \<Longrightarrow> gw_delete_user E params = ([], Inr deletion_cancelled)"
  by (simp add: gw_delete_user_def)

theorem delete_user_unconfirmed_witness:
  "\<not> confirm \<lparr>DeleteUserInput.user_key = ''a@x.com'', confirm = False\<rparr>
   \<and> gw_delete_user scripted_env \<lparr>DeleteUserInput.user_key = ''a@x.com'', confirm = False\<rparr>
       = ([], Inr deletion_cancelled)"
  using delete_user_unconfirmed
    [of "\<lparr>DeleteUserInput.user_key = ''a@x.com'', confirm = False\<rparr>" scripted_env]
  by simp

text \<open>
  The record returned by the get call can be read for display exactly when it is a dict
  whose \<open>name\<close> entry is absent or a dict; otherwise reading it raises an
  \<open>AttributeError\<close>.
\<close>

lemma display_data_readable:
  "(\<exists>d. display_data E key user = Inr d) \<longleftrightarrow>
   (\<exists>kvs. user = JObj kvs
      \<and> (map_of kvs ''name'' = None \<or> (\<exists>n. map_of kvs ''name'' = Some (JObj n))))"
  by (cases user) (auto simp: display_data_def py_get_def split: option.splits json.splits)

lemma py_get_raises_AttributeError:
  "py_get v k d = Inl x \<Longrightarrow> \<exists>msg. x = OtherException ''AttributeError'' msg"
  by (auto simp: py_get_def split: json.splits)

lemma display_data_raises:
  assumes "display_data E key user = Inl x"
  shows "\<exists>msg. x = OtherException ''AttributeError'' msg"
proof (cases "py_get user ''primaryEmail'' (JStr key)")
  case (Inl y)
  with assms have "x = y" by (simp add: display_data_def)
  with Inl show ?thesis by (blast dest: py_get_raises_AttributeError)
next
  case email: (Inr user_email)
  show ?thesis
  proof (cases "py_get user ''name'' (JObj [])")
    case (Inl y)
    with assms email have "x = y" by (simp add: display_data_def)
    with Inl show ?thesis by (blast dest: py_get_raises_AttributeError)
  next
    case (Inr name)
    with assms email have "py_get name ''fullName'' (JStr ''N/A'') = Inl x"
      by (cases "py_get name ''fullName'' (JStr ''N/A'')") (simp_all add: display_data_def)
    then show ?thesis by (rule py_get_raises_AttributeError)
  qed
qed

text \<open>
  C2, as amended. With \<open>confirm=True\<close> and a client handle obtained, the handler issues the
  get call first and exactly once, and after it at most the delete call, once.
  If the get call fails, the delete call is not issued and the outcome is the
  translator's outcome for that failure; this is a returned string, the translated
  failure, whenever the failure is not a transport error, or is one whose body is UTF-8
  and on which \<open>json.loads\<close> returns or raises \<open>JSONDecodeError\<close>.
  The delete call is issued exactly when the get call returns a dict whose \<open>name\<close> entry
  is absent or a dict; when the get call returns anything else, the handler returns the
  translation of the \<open>AttributeError\<close> raised in reading it.
\<close>

theorem delete_user_get_then_delete:
  assumes "confirm params" and "get_directory_service E = Inr ()"
  shows "(\<exists>rest. fst (gw_delete_user E params)
            = GetDirectoryService # Execute (UsersGet (DeleteUserInput.user_key params)) # rest
          \<and> (rest = [] \<or> rest = [Execute (UsersDelete (DeleteUserInput.user_key params))]))
    \<and> (\<forall>e. execute E [] (UsersGet (DeleteUserInput.user_key params)) = Inl e \<longrightarrow>
          gw_delete_user E params
            = ([GetDirectoryService, Execute (UsersGet (DeleteUserInput.user_key params))],
               handle_google_error E e))
    \<and> (\<forall>e. execute E [] (UsersGet (DeleteUserInput.user_key params)) = Inl e \<longrightarrow>
          (\<forall>status content text. e = HttpError status content text \<longrightarrow>
             utf8_valid content
             \<and> (\<forall>x. json_loads E content = Inl x \<longrightarrow> parse_error_caught x)) \<longrightarrow>
          (\<exists>translated. handle_google_error E e = Inr translated
             \<and> gw_delete_user E params
               = ([GetDirectoryService, Execute (UsersGet (DeleteUserInput.user_key params))],
                  Inr translated)))
    \<and> (Execute (UsersDelete (DeleteUserInput.user_key params)) \<in> set (fst (gw_delete_user E params))
        \<longleftrightarrow> (\<exists>kvs. execute E [] (UsersGet (DeleteUserInput.user_key params)) = Inr (JObj kvs)
              \<and> (map_of kvs ''name'' = None \<or> (\<exists>n. map_of kvs ''name'' = Some (JObj n)))))
    \<and> (\<forall>user. execute E [] (UsersGet (DeleteUserInput.user_key params)) = Inr user \<longrightarrow>
          \<not> (\<exists>kvs. user = JObj kvs
                \<and> (map_of kvs ''name'' = None \<or> (\<exists>n. map_of kvs ''name'' = Some (JObj n)))) \<longrightarrow>
          (\<exists>msg. gw_delete_user E params
             = ([GetDirectoryService, Execute (UsersGet (DeleteUserInput.user_key params))],
                Inr (''Errore imprevisto: AttributeError: '' @ msg))))"
    (is "?first \<and> ?failed \<and> ?translated \<and> ?delete \<and> ?unreadable")
proof -
  let ?key = "DeleteUserInput.user_key params"
  let ?readable = "\<lambda>user. \<exists>kvs. user = JObj kvs
          \<and> (map_of kvs ''name'' = None \<or> (\<exists>n. map_of kvs ''name'' = Some (JObj n)))"
  show ?thesis
  proof (cases "execute E [] (UsersGet ?key)")
    case (Inl e)
    with assms have run: "gw_delete_user E params
        = ([GetDirectoryService, Execute (UsersGet ?key)], handle_google_error E e)"
      by (simp add: gw_delete_user_def Let_def)
    have one: ?first using run by simp
    have two: ?failed using Inl run by simp
    have three: ?translated
    proof (intro allI impI)
      fix e'
      assume "execute E [] (UsersGet ?key) = Inl e'"
        and "\<forall>status content text. e' = HttpError status content text \<longrightarrow>
             utf8_valid content
             \<and> (\<forall>x. json_loads E content = Inl x \<longrightarrow> parse_error_caught x)"
      with Inl have "e' = e"
        and "\<forall>status content text. e = HttpError status content text \<longrightarrow>
             utf8_valid content
             \<and> (\<forall>x. json_loads E content = Inl x \<longrightarrow> parse_error_caught x)"
        by simp_all
      then obtain translated where "handle_google_error E e = Inr translated"
        using handle_google_error_returns by blast
      with run \<open>e' = e\<close>
      show "\<exists>translated. handle_google_error E e' = Inr translated
             \<and> gw_delete_user E params
               = ([GetDirectoryService, Execute (UsersGet ?key)], Inr translated)"
        by simp
    qed
    have four: ?delete using Inl run by simp
    have five: ?unreadable using Inl by simp
    from one two three four five show ?thesis by (intro conjI)
  next
    case (Inr user)
    then have same: "execute E [] (UsersGet ?key) = Inr other \<longleftrightarrow> other = user" for other
      by auto
    show ?thesis
    proof (cases "display_data E ?key user")
      case (Inl x)
      then have "\<not> (\<exists>d. display_data E ?key user = Inr d)" by simp
      with display_data_readable [of E ?key user]
      have unreadable: "\<not> ?readable user"
        by blast
      from Inl obtain msg where x: "x = OtherException ''AttributeError'' msg"
        by (blast dest: display_data_raises)
      from assms Inr Inl x have run: "gw_delete_user E params
          = ([GetDirectoryService, Execute (UsersGet ?key)],
             Inr (''Errore imprevisto: AttributeError: '' @ msg))"
        by (simp add: gw_delete_user_def Let_def handle_google_error_def)
      have one: ?first using run by simp
      have two: ?failed using Inr by simp
      have three: ?translated using Inr by simp
      have not_issued: "Execute (UsersDelete ?key) \<notin> set (fst (gw_delete_user E params))"
        using run by simp
      have not_readable: "\<not> (\<exists>kvs. execute E [] (UsersGet ?key) = Inr (JObj kvs)
          \<and> (map_of kvs ''name'' = None \<or> (\<exists>n. map_of kvs ''name'' = Some (JObj n))))"
        using unreadable by (auto simp: same)
      have four: ?delete using not_issued not_readable by blast
      have five: ?unreadable using run by blast
      from one two three four five show ?thesis by (intro conjI)
    next
      case r: (Inr d)
      then have "\<exists>d. display_data E ?key user = Inr d" by blast
      with display_data_readable [of E ?key user]
      have readable: "?readable user"
        by blast
      obtain user_name user_email where d: "d = (user_name, user_email)"
        by (cases d)
      from assms Inr r d have events: "fst (gw_delete_user E params)
          = [GetDirectoryService, Execute (UsersGet ?key), Execute (UsersDelete ?key)]"
        by (simp add: gw_delete_user_def Let_def)
      have one: ?first using events by simp
      have two: ?failed using Inr by simp
      have three: ?translated using Inr by simp
      have issued: "Execute (UsersDelete ?key) \<in> set (fst (gw_delete_user E params))"
        using events by simp
      have is_readable: "\<exists>kvs. execute E [] (UsersGet ?key) = Inr (JObj kvs)
          \<and> (map_of kvs ''name'' = None \<or> (\<exists>n. map_of kvs ''name'' = Some (JObj n)))"
        using readable by (auto simp: same)
      have four: ?delete using issued is_readable by blast
      have five: ?unreadable using readable by (auto simp: same)
      from one two three four five show ?thesis by (intro conjI)
    qed
  qed
qed

theorem delete_user_get_then_delete_witness:
  "confirm \<lparr>DeleteUserInput.user_key = ''a@x.com'', confirm = True\<rparr>
   \<and> get_directory_service scripted_env = Inr ()
   \<and> fst (gw_delete_user scripted_env \<lparr>DeleteUserInput.user_key = ''a@x.com'', confirm = True\<rparr>)
       = [GetDirectoryService, Execute (UsersGet ''a@x.com''), Execute (UsersDelete ''a@x.com'')]
   \<and> (\<exists>translated.
         gw_delete_user scripted_env \<lparr>DeleteUserInput.user_key = ''z@x.com'', confirm = True\<rparr>
           = ([GetDirectoryService, Execute (UsersGet ''z@x.com'')], Inr translated))
   \<and> (\<exists>msg.
         gw_delete_user scripted_env \<lparr>DeleteUserInput.user_key = ''n@x.com'', confirm = True\<rparr>
           = ([GetDirectoryService, Execute (UsersGet ''n@x.com'')],
              Inr (''Errore imprevisto: AttributeError: '' @ msg)))"
proof -
  let ?a = "\<lparr>DeleteUserInput.user_key = ''a@x.com'', confirm = True\<rparr>"
  let ?z = "\<lparr>DeleteUserInput.user_key = ''z@x.com'', confirm = True\<rparr>"
  let ?n = "\<lparr>DeleteUserInput.user_key = ''n@x.com'', confirm = True\<rparr>"
  have s: "get_directory_service scripted_env = Inr ()" by simp
  have ca: "confirm ?a" and cz: "confirm ?z" and cn: "confirm ?n" by simp_all
  note for_a = delete_user_get_then_delete [OF ca s]
  note for_z = delete_user_get_then_delete [OF cz s]
  note for_n = delete_user_get_then_delete [OF cn s]
  have ga: "execute scripted_env [] (UsersGet ''a@x.com'') = Inr user_a"
    by (simp add: scripted_execute_def)
  have ra: "\<exists>kvs. user_a = JObj kvs
      \<and> (map_of kvs ''name'' = None \<or> (\<exists>n. map_of kvs ''name'' = Some (JObj n)))"
    by (simp add: user_a_def)
  from for_a [THEN conjunct2, THEN conjunct2, THEN conjunct2, THEN conjunct1] ga ra
  have issued: "Execute (UsersDelete ''a@x.com'') \<in> set (fst (gw_delete_user scripted_env ?a))"
    by simp
  from for_a [THEN conjunct1]
  obtain rest where "fst (gw_delete_user scripted_env ?a)
      = GetDirectoryService # Execute (UsersGet ''a@x.com'') # rest"
    and "rest = [] \<or> rest = [Execute (UsersDelete ''a@x.com'')]"
    by auto
  with issued have first: "fst (gw_delete_user scripted_env ?a)
      = [GetDirectoryService, Execute (UsersGet ''a@x.com''), Execute (UsersDelete ''a@x.com'')]"
    by auto
  have gz: "execute scripted_env [] (UsersGet ''z@x.com'')
      = Inl (HttpError 404 ''Not Found''
               ''<HttpError 404 when requesting users returned Not Found>'')"
    by (simp add: scripted_execute_def)
  have body: "utf8_valid ''Not Found''"
    by (simp add: byte_in_def)
  have loads: "\<forall>x. json_loads scripted_env ''Not Found'' = Inl x \<longrightarrow> parse_error_caught x"
    by (simp add: parse_error_caught_def)
  from for_z [THEN conjunct2, THEN conjunct2, THEN conjunct1] gz body loads
  have second: "\<exists>translated. gw_delete_user scripted_env ?z
      = ([GetDirectoryService, Execute (UsersGet ''z@x.com'')], Inr translated)"
    by auto
  have gn: "execute scripted_env [] (UsersGet ''n@x.com'') = Inr user_n"
    by (simp add: scripted_execute_def)
  have rn: "\<not> (\<exists>kvs. user_n = JObj kvs
      \<and> (map_of kvs ''name'' = None \<or> (\<exists>n. map_of kvs ''name'' = Some (JObj n))))"
    by (simp add: user_n_def)
  from for_n [THEN conjunct2, THEN conjunct2, THEN conjunct2, THEN conjunct2] gn rn
  have third: "\<exists>msg. gw_delete_user scripted_env ?n
      = ([GetDirectoryService, Execute (UsersGet ''n@x.com'')],
         Inr (''Errore imprevisto: AttributeError: '' @ msg))"
    by simp
  from ca s first second third show ?thesis by (intro conjI)
qed

text \<open>
  C2 as stated fails on two inputs with \<open>confirm=True\<close>: with \<open>GOOGLE_ADMIN_EMAIL\<close> unset no
  call is issued at all, and when the get call succeeds with a record whose name is
  \<open>null\<close> the delete call is not issued although the get call did not fail.
\<close>

theorem delete_user_get_then_delete_counterexample:
  "confirm \<lparr>DeleteUserInput.user_key = ''a@x.com'', confirm = True\<rparr>
   \<and> fst (gw_delete_user unconfigured_env \<lparr>DeleteUserInput.user_key = ''a@x.com'', confirm = True\<rparr>)
       = [GetDirectoryService]
   \<and> execute scripted_env [] (UsersGet ''n@x.com'') = Inr user_n
   \<and> fst (gw_delete_user scripted_env \<lparr>DeleteUserInput.user_key = ''n@x.com'', confirm = True\<rparr>)
       = [GetDirectoryService, Execute (UsersGet ''n@x.com'')]"
  by (simp add: gw_delete_user_def Let_def scripted_execute_def user_n_def display_data_def py_get_def)

text \<open>
  C10. With \<open>confirm=False\<close> the cancellation notice is returned with no event, so before
  \<open>get_directory_service\<close> is called and whatever the configuration is; with
  \<open>confirm=True\<close> the first event is the call of \<open>get_directory_service\<close>, and when that
  fails the handler returns the translation of the failure and nothing else happens.
\<close>

theorem delete_user_cancel_precedes_credentials:
  "(\<not> confirm params \<longrightarrow> gw_delete_user E params = ([], Inr deletion_cancelled))
   \<and> (confirm params \<longrightarrow> (\<exists>rest. fst (gw_delete_user E params) = GetDirectoryService # rest))
   \<and> (confirm params \<longrightarrow> (\<forall>e. get_directory_service E = Inl e \<longrightarrow>
          gw_delete_user E params = ([GetDirectoryService], handle_google_error E e)))"
  by (auto simp: gw_delete_user_def Let_def split: sum.splits prod.splits)

theorem delete_user_cancel_precedes_credentials_witness:
  "gw_delete_user unconfigured_env \<lparr>DeleteUserInput.user_key = ''a@x.com'', confirm = False\<rparr>
     = ([], Inr deletion_cancelled)
   \<and> gw_delete_user unconfigured_env \<lparr>DeleteUserInput.user_key = ''a@x.com'', confirm = True\<rparr>
     = ([GetDirectoryService],
        Inr (''Errore configurazione: GOOGLE_ADMIN_EMAIL non configurato. ''
             @ ''Impostalo con l'email dell'admin che ha la delega domain-wide.''))"
  using delete_user_cancel_precedes_credentials
    [of "\<lparr>DeleteUserInput.user_key = ''a@x.com'', confirm = False\<rparr>" unconfigured_env]
    delete_user_cancel_precedes_credentials
    [of "\<lparr>DeleteUserInput.user_key = ''a@x.com'', confirm = True\<rparr>" unconfigured_env]
  by (simp add: handle_google_error_def)

subsection \<open>Aliases\<close>




subsection \<open>Exceptions that leave the translator\<close>

text \<open>
  C5, at a transport error whose body is not UTF-8: for status 403 and the body \<open>0xFF\<close>
  the translator renders nothing, the \<open>UnicodeDecodeError\<close> of \<open>decode()\<close> leaves it.
\<close>

theorem http_403_undecodable_body_raises:
  "handle_google_error E (HttpError 403 [CHR 0xFF] text)
     = Inl (ValueError ''UnicodeDecodeError'' (decode_error E [CHR 0xFF]))"
  by (simp add: handle_google_error_def error_message_undecodable byte_in_def)

text \<open>
  C9, at the same kind of error inside a handler: the alias list call fails with status
  500 and the body \<open>0xFF\<close>, the translator raises, and the exception leaves
  \<open>gw_manage_alias\<close> instead of a string.
\<close>

theorem manage_alias_list_propagates_exception:
  "gw_manage_alias scripted_env
     \<lparr>ManageAliasInput.user_key = ''a@x.com'', action = LIST, alias_email = None\<rparr>
   = ([GetDirectoryService, Execute (AliasesList ''a@x.com'')],
      Inl (ValueError ''UnicodeDecodeError''
        (quote @ ''utf-8'' @ quote
         @ '' codec can't decode byte 0xff in position 0: invalid start byte'')))"
  by (simp add: gw_manage_alias_def Let_def handle_google_error_def error_message_undecodable
      byte_in_def scripted_execute_def)

text \<open>
  Whatever leaves one of the five handlers above was raised by the translator.
\<close>

lemma try_except_raises:
  "snd (try_except E body) = Inl raised \<Longrightarrow> \<exists>e. handle_google_error E e = Inl raised"
  by (cases body) (auto simp: try_except_def split: sum.splits)

lemma handler_raises_only_from_translator:
  "snd (gw_list_users E p1) = Inl raised \<Longrightarrow> \<exists>e. handle_google_error E e = Inl raised"
  "snd (gw_get_user E p2) = Inl raised \<Longrightarrow> \<exists>e. handle_google_error E e = Inl raised"
  "snd (gw_create_user E p3) = Inl raised \<Longrightarrow> \<exists>e. handle_google_error E e = Inl raised"
  "snd (gw_delete_user E p4) = Inl raised \<Longrightarrow> \<exists>e. handle_google_error E e = Inl raised"
  "snd (gw_manage_alias E p5) = Inl raised \<Longrightarrow> \<exists>e. handle_google_error E e = Inl raised"
proof -
  show "snd (gw_list_users E p1) = Inl raised \<Longrightarrow> \<exists>e. handle_google_error E e = Inl raised"
    unfolding gw_list_users_def by (rule try_except_raises)
  show "snd (gw_get_user E p2) = Inl raised \<Longrightarrow> \<exists>e. handle_google_error E e = Inl raised"
    unfolding gw_get_user_def by (rule try_except_raises)
  show "snd (gw_create_user E p3) = Inl raised \<Longrightarrow> \<exists>e. handle_google_error E e = Inl raised"
    unfolding gw_create_user_def by (rule try_except_raises)
  show "snd (gw_delete_user E p4) = Inl raised \<Longrightarrow> \<exists>e. handle_google_error E e = Inl raised"
    unfolding gw_delete_user_def
    by (cases "confirm p4") (auto dest: try_except_raises)
  show "snd (gw_manage_alias E p5) = Inl raised \<Longrightarrow> \<exists>e. handle_google_error E e = Inl raised"
    unfolding gw_manage_alias_def by (rule try_except_raises)
qed

subsection \<open>Listing users\<close>

lemma keep_active_filter:
  "keep_active us = Inr kept \<Longrightarrow>
   kept = filter (\<lambda>u. \<exists>s. py_get u ''suspended'' JNull = Inr s \<and> \<not> truthy s) us"
  by (induction us arbitrary: kept) (auto split: sum.splits if_splits)

lemma py_get_flag_true:
  "py_get (JObj kvs) ''suspended'' JNull = Inr s \<Longrightarrow> \<not> truthy s \<Longrightarrow>
   map_of kvs ''suspended'' \<noteq> Some (JBool True)"
  by (auto simp: py_get_def)

lemma format_user_a [simp]: "format_user E user_a = Inr user_a_block"
  by (simp add: format_user_def user_a_def user_a_block_def py_get_def py_str_def)

lemma show_nat_1 [simp]: "show_nat (Suc 0) = ''1''"
  by (simp add: show_nat.simps)

text \<open>
  C3. With \<open>show_suspended\<close> false (or \<open>None\<close>), a string returned by the handler is the
  translation of an error, the "no user" message, or the listing of the records \<open>shown\<close>:
  these are the records of the response whose \<open>suspended\<close> value is not true in Python's
  sense, in the order of the response, so none of them has \<open>suspended\<close> equal to \<open>True\<close>,
  whatever the response holds.
\<close>

theorem list_users_hides_suspended:
  assumes "\<not> flag_set (show_suspended params)"
      and "snd (gw_list_users E params) = Inr out"
  shows "(\<exists>e. handle_google_error E e = Inr out)
    \<or> out = no_users_found
    \<or> (\<exists>kwargs result users returned shown blocks.
          execute E [] (UsersList kwargs) = Inr result
          \<and> py_get result ''users'' (JArr []) = Inr users
          \<and> py_iter users = Inr returned
          \<and> shown = filter (\<lambda>u. \<exists>s. py_get u ''suspended'' JNull = Inr s \<and> \<not> truthy s) returned
          \<and> (\<forall>u \<in> set shown. \<forall>kvs. u = JObj kvs \<longrightarrow> map_of kvs ''suspended'' \<noteq> Some (JBool True))
          \<and> format_each E shown = Inr blocks
          \<and> out = str_join NL ((''## Utenti trovati: '' @ show_nat (length shown) @ NL) # blocks))"
proof (cases "get_directory_service E")
  case (Inl e)
  with assms(2) show ?thesis by (auto simp: gw_list_users_def)
next
  case service: (Inr u)
  define kwargs where "kwargs =
     [(''customer'', JStr (CUSTOMER_ID E)),
      (''maxResults'', opt_int (max_results params)),
      (''orderBy'', opt_str (order_by params))]
     @ (if str_given (query params) then [(''query'', opt_str (query params))] else [])"
  define call where "call = UsersList kwargs"
  define body where "body =
     and_then (execute E [] call) (\<lambda>result.
     and_then (py_get result ''users'' (JArr [])) (\<lambda>users.
     and_then (and_then (py_iter users) (\<lambda>us.
               and_then (keep_active us) (\<lambda>kept. Inr (JArr kept))))
       (list_users_text E)))"
  have run: "gw_list_users E params =
      try_except E
        (case list_rejected E kwargs of
           Some e \<Rightarrow> ([GetDirectoryService], Inl e)
         | None \<Rightarrow> ([GetDirectoryService, Execute call], body))"
    using service assms(1)
    by (simp add: gw_list_users_def Let_def call_def kwargs_def body_def split: option.splits)
  show ?thesis
  proof (cases "list_rejected E kwargs")
    case (Some e)
    with run assms(2) show ?thesis by auto
  next
    case None
    with run have run: "gw_list_users E params
        = try_except E ([GetDirectoryService, Execute call], body)"
      by simp
  show ?thesis
  proof (cases body)
    case (Inl e)
    with run assms(2) show ?thesis by auto
  next
    case (Inr s)
    with run assms(2) have out: "body = Inr out" by simp
    then obtain result where r: "execute E [] call = Inr result"
      by (cases "execute E [] call") (auto simp: body_def)
    with out obtain users where us: "py_get result ''users'' (JArr []) = Inr users"
      by (cases "py_get result ''users'' (JArr [])") (auto simp: body_def)
    with out r obtain returned where it: "py_iter users = Inr returned"
      by (cases "py_iter users") (auto simp: body_def)
    with out r us obtain shown where k: "keep_active returned = Inr shown"
      by (cases "keep_active returned") (auto simp: body_def)
    with out r us it have listing: "list_users_text E (JArr shown) = Inr out"
      by (simp add: body_def)
    have f: "shown = filter (\<lambda>u. \<exists>s. py_get u ''suspended'' JNull = Inr s \<and> \<not> truthy s) returned"
      using k by (rule keep_active_filter)
    then have flag: "\<forall>u \<in> set shown. \<forall>kvs. u = JObj kvs \<longrightarrow> map_of kvs ''suspended'' \<noteq> Some (JBool True)"
      by (auto dest: py_get_flag_true)
    show ?thesis
    proof (cases "shown = []")
      case True
      with listing show ?thesis by (simp add: list_users_text_def)
    next
      case False
      with listing obtain blocks where b: "format_each E shown = Inr blocks"
        by (cases "format_each E shown") (auto simp: list_users_text_def py_len_def py_iter_def)
      with listing False
      have "out = str_join NL ((''## Utenti trovati: '' @ show_nat (length shown) @ NL) # blocks)"
        by (simp add: list_users_text_def py_len_def py_iter_def)
      with r [unfolded call_def] us it f flag b show ?thesis by blast
    qed
  qed
  qed
qed

text \<open>
  On the scripted provider, whose response holds an active and a suspended user, the
  handler returns the listing of one user, and the result is neither an error nor the
  "no user" message.
\<close>

theorem list_users_hides_suspended_witness:
  "\<not> flag_set (show_suspended
       \<lparr>query = None, max_results = Some 100, order_by = Some ''email'', show_suspended = Some False\<rparr>)
   \<and> snd (gw_list_users scripted_env
       \<lparr>query = None, max_results = Some 100, order_by = Some ''email'', show_suspended = Some False\<rparr>)
     = Inr (str_join NL [''## Utenti trovati: 1'' @ NL, user_a_block, ''---''])
   \<and> (\<exists>kwargs result users returned shown blocks.
         execute scripted_env [] (UsersList kwargs) = Inr result
         \<and> py_get result ''users'' (JArr []) = Inr users
         \<and> py_iter users = Inr returned
         \<and> shown = filter (\<lambda>u. \<exists>s. py_get u ''suspended'' JNull = Inr s \<and> \<not> truthy s) returned
         \<and> (\<forall>u \<in> set shown. \<forall>kvs. u = JObj kvs \<longrightarrow> map_of kvs ''suspended'' \<noteq> Some (JBool True))
         \<and> format_each scripted_env shown = Inr blocks
         \<and> str_join NL [''## Utenti trovati: 1'' @ NL, user_a_block, ''---'']
             = str_join NL ((''## Utenti trovati: '' @ show_nat (length shown) @ NL) # blocks))"
proof -
  let ?p = "\<lparr>query = None, max_results = Some 100, order_by = Some ''email'',
             show_suspended = Some False\<rparr>"
  let ?out = "str_join NL [''## Utenti trovati: 1'' @ NL, user_a_block, ''---'']"
  have h: "\<not> flag_set (show_suspended ?p)" by (simp add: flag_set_def)
  have flags: "py_get user_b ''suspended'' JNull = Inr (JBool True)"
    "py_get user_a ''suspended'' JNull = Inr (JBool False)"
    by (simp_all add: py_get_def user_b_def user_a_def)
  have run: "snd (gw_list_users scripted_env ?p) = Inr ?out"
    using h
    by (simp add: gw_list_users_def Let_def str_given_def opt_str_def scripted_list_rejected_def
        scripted_execute_def py_get_def py_iter_def py_len_def list_users_text_def
        flags [unfolded py_get_def])
  have not_error: "handle_google_error scripted_env e \<noteq> Inr ?out" for e
    by (cases e) (auto simp: handle_google_error_def error_map_def error_message_def
        parse_message_def parse_error_caught_def bytes_decode_def py_str_def and_then_def
        split: sum.splits if_splits)
  have not_empty: "?out \<noteq> no_users_found"
    by (simp add: no_users_found_def)
  from list_users_hides_suspended [OF h run] not_error not_empty h run
  show ?thesis by blast
qed

subsection \<open>Temporary passwords\<close>

text \<open>
  C6. The generated string has exactly \<open>n\<close> characters for every length \<open>n \<ge> 0\<close> (for a
  negative \<open>n\<close> Python's \<open>range\<close> is empty, and so is the string: \<open>nat n = 0\<close>), every
  character is an ASCII letter, a digit or one of \<open>!@#$%&*\<close>, and without an argument
  the length is 16. In \<open>gw_create_user\<close> a missing (or empty) password is replaced by
  such a string of the default length; once the handle is obtained, that password is the
  one sent in the insert call, and the one shown in the confirmation when the call and the
  formatting succeed.
\<close>

theorem temp_password_length_and_alphabet:
  "length (generate_temp_password E (Some n)) = nat n
   \<and> (0 \<le> n \<longrightarrow> int (length (generate_temp_password E (Some n))) = n)
   \<and> set (generate_temp_password E len) \<subseteq> set ascii_letters \<union> set digits \<union> set ''!@#$%&*''
   \<and> generate_temp_password E None = generate_temp_password E (Some 16)
   \<and> length (generate_temp_password E None) = 16
   \<and> (\<not> str_given (password params) \<longrightarrow>
         chosen_password E params = generate_temp_password E None)
   \<and> (get_directory_service E = Inr () \<longrightarrow>
         fst (gw_create_user E params)
           = [GetDirectoryService,
              Execute (UsersInsert (create_user_body params (chosen_password E params)))]
         \<and> py_get (create_user_body params (chosen_password E params)) ''password'' JNull
           = Inr (JStr (chosen_password E params))
         \<and> (\<forall>created block.
               execute E [] (UsersInsert (create_user_body params (chosen_password E params)))
                 = Inr created \<longrightarrow>
               format_user E created = Inr block \<longrightarrow>
               snd (gw_create_user E params)
                 = Inr (created_text block (chosen_password E params)
                          (change_password_at_next_login params))))"
proof -
  let ?chars = "ascii_letters @ digits @ ''!@#$%&*''"
  have ne: "?chars \<noteq> []" by (simp add: ascii_letters_def)
  then have pos: "0 < length ?chars" by (rule iffD2 [OF length_greater_0_conv])
  have "secrets_choice E i ?chars \<in> set ?chars" for i
    unfolding secrets_choice_def by (rule nth_mem) (rule mod_less_divisor [OF pos])
  then have "set (generate_temp_password E len) \<subseteq> set ?chars"
    unfolding generate_temp_password_def Let_def by auto
  also have "set ?chars = set ascii_letters \<union> set digits \<union> set ''!@#$%&*''"
    by (simp only: set_append Un_assoc)
  finally have alphabet:
    "set (generate_temp_password E len) \<subseteq> set ascii_letters \<union> set digits \<union> set ''!@#$%&*''" .
  have len: "length (generate_temp_password E (Some n)) = nat n"
    "generate_temp_password E None = generate_temp_password E (Some 16)"
    "length (generate_temp_password E None) = 16"
    by (simp_all add: generate_temp_password_def Let_def)
  have chosen: "\<not> str_given (password params) \<longrightarrow>
      chosen_password E params = generate_temp_password E None"
    by (simp add: chosen_password_def str_given_def split: option.splits)
  have body: "py_get (create_user_body params pw) ''password'' JNull = Inr (JStr pw)" for pw
    by (simp add: create_user_body_def py_get_def)
  have run: "get_directory_service E = Inr () \<longrightarrow>
      gw_create_user E params
        = try_except E
            ([GetDirectoryService,
              Execute (UsersInsert (create_user_body params (chosen_password E params)))],
             and_then (execute E []
                 (UsersInsert (create_user_body params (chosen_password E params))))
               (\<lambda>created. and_then (format_user E created) (\<lambda>block.
                  Inr (created_text block (chosen_password E params)
                         (change_password_at_next_login params)))))"
    by (simp add: gw_create_user_def Let_def)
  have sent: "get_directory_service E = Inr () \<longrightarrow>
      fst (gw_create_user E params)
        = [GetDirectoryService,
           Execute (UsersInsert (create_user_body params (chosen_password E params)))]"
    using run by simp
  have shown: "get_directory_service E = Inr () \<longrightarrow>
      (\<forall>created block.
         execute E [] (UsersInsert (create_user_body params (chosen_password E params)))
           = Inr created \<longrightarrow>
         format_user E created = Inr block \<longrightarrow>
         snd (gw_create_user E params)
           = Inr (created_text block (chosen_password E params)
                    (change_password_at_next_login params)))"
    using run by simp
  from len(1) have nonneg: "0 \<le> n \<longrightarrow> int (length (generate_temp_password E (Some n))) = n"
    by simp
  from alphabet len nonneg chosen body sent shown show ?thesis
    by blast
qed

lemma scripted_password: "generate_temp_password scripted_env None = ''dkryFMT07%elszGN''"
  by code_simp

theorem temp_password_length_and_alphabet_witness:
  "(0::int) \<le> 8
   \<and> int (length (generate_temp_password scripted_env (Some 8))) = 8
   \<and> generate_temp_password scripted_env None = ''dkryFMT07%elszGN''
   \<and> \<not> str_given (password
          \<lparr>primary_email = ''c@x.com'', first_name = ''C'', last_name = ''D'', password = None,
           org_unit_path = Some ''/'', change_password_at_next_login = Some False,
           recovery_email = None, recovery_phone = None\<rparr>)
   \<and> get_directory_service scripted_env = Inr ()
   \<and> fst (gw_create_user scripted_env
          \<lparr>primary_email = ''c@x.com'', first_name = ''C'', last_name = ''D'', password = None,
           org_unit_path = Some ''/'', change_password_at_next_login = Some False,
           recovery_email = None, recovery_phone = None\<rparr>)
       = [GetDirectoryService,
          Execute (UsersInsert (JObj
            [(''primaryEmail'', JStr ''c@x.com''),
             (''name'', JObj [(''givenName'', JStr ''C''), (''familyName'', JStr ''D'')]),
             (''password'', JStr ''dkryFMT07%elszGN''),
             (''changePasswordAtNextLogin'', JBool False),
             (''orgUnitPath'', JStr ''/'')]))]"
proof -
  let ?p = "\<lparr>primary_email = ''c@x.com'', first_name = ''C'', last_name = ''D'', password = None,
             org_unit_path = Some ''/'', change_password_at_next_login = Some False,
             recovery_email = None, recovery_phone = None\<rparr>"
  note inst = temp_password_length_and_alphabet [of scripted_env 8 None ?p]
  have n: "(0::int) \<le> 8" by simp
  have g: "\<not> str_given (password ?p)" by (simp add: str_given_def)
  have s: "get_directory_service scripted_env = Inr ()" by simp
  from inst n have l: "int (length (generate_temp_password scripted_env (Some 8))) = 8"
    by blast
  from inst g have c: "chosen_password scripted_env ?p = generate_temp_password scripted_env None"
    by blast
  from inst s have "fst (gw_create_user scripted_env ?p)
      = [GetDirectoryService,
         Execute (UsersInsert (create_user_body ?p (chosen_password scripted_env ?p)))]"
    by blast
  then have "fst (gw_create_user scripted_env ?p)
      = [GetDirectoryService,
         Execute (UsersInsert (create_user_body ?p ''dkryFMT07%elszGN''))]"
    by (simp only: c scripted_password)
  then show ?thesis
    using n l g s scripted_password
    by (simp add: create_user_body_def opt_bool_def opt_str_def str_given_def)
qed

subsection \<open>Showing a user\<close>

text \<open>
  C7. When the handle is obtained and the provider answers the get call for \<open>a@x.com\<close>
  with the record of the scenario, \<open>gw_get_user\<close> returns the eight lines below. The
  first is the e-mail line; the lines \<open>ID: 1\<close> and \<open>Stato: ... Attivo\<close> are whole lines of
  the block after the three spaces by which \<open>format_user\<close> indents every line but the
  first.
\<close>

theorem get_user_scenario:
  assumes "get_directory_service E = Inr ()"
      and "execute E [] (UsersGet ''a@x.com'')
             = Inr (JObj [(''primaryEmail'', JStr ''a@x.com''),
                          (''name'', JObj [(''fullName'', JStr ''A B'')]),
                          (''id'', JStr ''1''),
                          (''suspended'', JBool False)])"
  shows "\<exists>block.
      gw_get_user E \<lparr>GetUserInput.user_key = ''a@x.com''\<rparr>
        = ([GetDirectoryService, Execute (UsersGet ''a@x.com'')], Inr block)
      \<and> block = str_join NL
           [e_mail @ '' **a@x.com**'',
            ''   Nome: A B'',
            ''   ID: 1'',
            ''   Stato: '' @ green_circle @ '' Attivo'',
            ''   Admin: No'',
            ''   Ultimo accesso: Mai'',
            ''   Creazione: N/A'',
            ''   Unit'' @ a_grave @ '' org.: /'']
      \<and> prefix (e_mail @ '' **a@x.com**'' @ NL) block
      \<and> sublist (NL @ ''   Stato: '' @ green_circle @ '' Attivo'' @ NL) block
      \<and> sublist (NL @ ''   ID: 1'' @ NL) block"
proof -
  define l1 where "l1 = e_mail @ '' **a@x.com**''"
  define l2 where "l2 = ''   Nome: A B''"
  define l3 where "l3 = ''   ID: 1''"
  define l4 where "l4 = ''   Stato: '' @ green_circle @ '' Attivo''"
  define rest where "rest = str_join NL [''   Admin: No'', ''   Ultimo accesso: Mai'',
     ''   Creazione: N/A'', ''   Unit'' @ a_grave @ '' org.: /'']"
  define block where "block = str_join NL
           [e_mail @ '' **a@x.com**'',
            ''   Nome: A B'',
            ''   ID: 1'',
            ''   Stato: '' @ green_circle @ '' Attivo'',
            ''   Admin: No'',
            ''   Ultimo accesso: Mai'',
            ''   Creazione: N/A'',
            ''   Unit'' @ a_grave @ '' org.: /'']"
  have run: "gw_get_user E \<lparr>GetUserInput.user_key = ''a@x.com''\<rparr>
      = ([GetDirectoryService, Execute (UsersGet ''a@x.com'')], Inr block)"
    using assms
    by (simp add: gw_get_user_def Let_def format_user_def py_get_def py_str_def block_def)
  have split: "block = l1 @ NL @ l2 @ NL @ l3 @ NL @ l4 @ NL @ rest"
    by (simp add: block_def l1_def l2_def l3_def l4_def rest_def)
  have "block = (l1 @ NL) @ (l2 @ NL @ l3 @ NL @ l4 @ NL @ rest)"
    by (simp only: split append_assoc)
  then have first: "prefix (l1 @ NL) block"
    by (simp only: prefixI)
  have "block = (l1 @ NL @ l2 @ NL @ l3) @ (NL @ l4 @ NL) @ rest"
    by (simp only: split append_assoc)
  then have status: "sublist (NL @ l4 @ NL) block"
    by (simp only: sublist_appendI)
  have "block = (l1 @ NL @ l2) @ (NL @ l3 @ NL) @ (l4 @ NL @ rest)"
    by (simp only: split append_assoc)
  then have ident: "sublist (NL @ l3 @ NL) block"
    by (simp only: sublist_appendI)
  show ?thesis
  proof (intro exI [of _ block] conjI)
    show "gw_get_user E \<lparr>GetUserInput.user_key = ''a@x.com''\<rparr>
      = ([GetDirectoryService, Execute (UsersGet ''a@x.com'')], Inr block)"
      by (rule run)
    show "block = str_join NL
           [e_mail @ '' **a@x.com**'',
            ''   Nome: A B'',
            ''   ID: 1'',
            ''   Stato: '' @ green_circle @ '' Attivo'',
            ''   Admin: No'',
            ''   Ultimo accesso: Mai'',
            ''   Creazione: N/A'',
            ''   Unit'' @ a_grave @ '' org.: /'']"
      by (rule block_def)
    show "prefix (e_mail @ '' **a@x.com**'' @ NL) block"
      using first by (simp only: l1_def append_assoc)
    show "sublist (NL @ ''   Stato: '' @ green_circle @ '' Attivo'' @ NL) block"
      using status by (simp only: l4_def append_assoc)
    show "sublist (NL @ ''   ID: 1'' @ NL) block"
      using ident by (simp only: l3_def)
  qed
qed

theorem get_user_scenario_witness:
  "get_directory_service scripted_env = Inr ()
   \<and> execute scripted_env [] (UsersGet ''a@x.com'')
       = Inr (JObj [(''primaryEmail'', JStr ''a@x.com''),
                    (''name'', JObj [(''fullName'', JStr ''A B'')]),
                    (''id'', JStr ''1''),
                    (''suspended'', JBool False)])
   \<and> gw_get_user scripted_env \<lparr>GetUserInput.user_key = ''a@x.com''\<rparr>
       = ([GetDirectoryService, Execute (UsersGet ''a@x.com'')], Inr user_a_block)
   \<and> sublist (NL @ ''   ID: 1'' @ NL) user_a_block"
proof -
  have s: "get_directory_service scripted_env = Inr ()" by simp
  have g: "execute scripted_env [] (UsersGet ''a@x.com'')
       = Inr (JObj [(''primaryEmail'', JStr ''a@x.com''),
                    (''name'', JObj [(''fullName'', JStr ''A B'')]),
                    (''id'', JStr ''1''),
                    (''suspended'', JBool False)])"
    by (simp add: scripted_execute_def user_a_def)
  from get_user_scenario [OF s g] obtain block where
    run: "gw_get_user scripted_env \<lparr>GetUserInput.user_key = ''a@x.com''\<rparr>
        = ([GetDirectoryService, Execute (UsersGet ''a@x.com'')], Inr block)"
    and block: "block = str_join NL
           [e_mail @ '' **a@x.com**'',
            ''   Nome: A B'',
            ''   ID: 1'',
            ''   Stato: '' @ green_circle @ '' Attivo'',
            ''   Admin: No'',
            ''   Ultimo accesso: Mai'',
            ''   Creazione: N/A'',
            ''   Unit'' @ a_grave @ '' org.: /'']"
    and ident: "sublist (NL @ ''   ID: 1'' @ NL) block"
    by (elim exE conjE)
  from block have "block = user_a_block" by (simp only: user_a_block_def)
  with run ident have
    "gw_get_user scripted_env \<lparr>GetUserInput.user_key = ''a@x.com''\<rparr>
       = ([GetDirectoryService, Execute (UsersGet ''a@x.com'')], Inr user_a_block)"
    "sublist (NL @ ''   ID: 1'' @ NL) user_a_block"
    by (simp_all only:)
  with s g show ?thesis by (intro conjI)
qed

subsection \<open>Creating a user\<close>

text \<open>
  C8. After a successful insert call whose record \<open>format_user\<close> can format, the
  confirmation with \<open>change_password_at_next_login\<close> false (or \<open>None\<close>) has nothing between
  the password line and the blank line before the closing sentence; with the flag true the
  warning sentence stands there.
\<close>

theorem create_user_warning_line:
  assumes "get_directory_service E = Inr ()"
      and "execute E [] (UsersInsert (create_user_body params (chosen_password E params)))
             = Inr created"
      and "format_user E created = Inr block"
  shows "(change_password_at_next_login params \<noteq> Some True \<longrightarrow>
            snd (gw_create_user E params)
              = Inr (check_mark @ '' Utente creato con successo!'' @ NL @ NL
                     @ block @ NL @ NL
                     @ key_sign @ '' **Password temporanea**: `'' @ chosen_password E params
                     @ ''`'' @ NL
                     @ NL @ NL
                     @ ''Comunica le credenziali al cliente in modo sicuro.''))
    \<and> (change_password_at_next_login params = Some True \<longrightarrow>
            snd (gw_create_user E params)
              = Inr (check_mark @ '' Utente creato con successo!'' @ NL @ NL
                     @ block @ NL @ NL
                     @ key_sign @ '' **Password temporanea**: `'' @ chosen_password E params
                     @ ''`'' @ NL
                     @ warning_sign @ '' L'utente dovr'' @ a_grave
                     @ '' cambiarla al primo accesso.''
                     @ NL @ NL
                     @ ''Comunica le credenziali al cliente in modo sicuro.''))"
proof -
  have run: "snd (gw_create_user E params)
      = Inr (created_text block (chosen_password E params)
               (change_password_at_next_login params))"
    using assms by (simp add: gw_create_user_def Let_def)
  have off: "change_password_at_next_login params \<noteq> Some True \<Longrightarrow>
      \<not> flag_set (change_password_at_next_login params)"
    by (cases "change_password_at_next_login params") (auto simp: flag_set_def)
  have on: "change_password_at_next_login params = Some True \<Longrightarrow>
      flag_set (change_password_at_next_login params)"
    by (simp add: flag_set_def)
  show ?thesis
  proof (intro conjI impI)
    assume "change_password_at_next_login params \<noteq> Some True"
    then have "\<not> flag_set (change_password_at_next_login params)" by (rule off)
    then show "snd (gw_create_user E params)
              = Inr (check_mark @ '' Utente creato con successo!'' @ NL @ NL
                     @ block @ NL @ NL
                     @ key_sign @ '' **Password temporanea**: `'' @ chosen_password E params
                     @ ''`'' @ NL
                     @ NL @ NL
                     @ ''Comunica le credenziali al cliente in modo sicuro.'')"
      by (simp add: run created_text_def)
  next
    assume "change_password_at_next_login params = Some True"
    then have "flag_set (change_password_at_next_login params)" by (rule on)
    then show "snd (gw_create_user E params)
              = Inr (check_mark @ '' Utente creato con successo!'' @ NL @ NL
                     @ block @ NL @ NL
                     @ key_sign @ '' **Password temporanea**: `'' @ chosen_password E params
                     @ ''`'' @ NL
                     @ warning_sign @ '' L'utente dovr'' @ a_grave
                     @ '' cambiarla al primo accesso.''
                     @ NL @ NL
                     @ ''Comunica le credenziali al cliente in modo sicuro.'')"
      by (simp add: run created_text_def change_password_warning_def)
  qed
qed

theorem create_user_warning_line_witness:
  "get_directory_service scripted_env = Inr ()
   \<and> change_password_at_next_login
        \<lparr>primary_email = ''c@x.com'', first_name = ''C'', last_name = ''D'',
         password = Some ''Init1!pw'', org_unit_path = Some ''/'',
         change_password_at_next_login = Some False,
         recovery_email = None, recovery_phone = None\<rparr> \<noteq> Some True
   \<and> snd (gw_create_user scripted_env
        \<lparr>primary_email = ''c@x.com'', first_name = ''C'', last_name = ''D'',
         password = Some ''Init1!pw'', org_unit_path = Some ''/'',
         change_password_at_next_login = Some False,
         recovery_email = None, recovery_phone = None\<rparr>)
     = Inr (check_mark @ '' Utente creato con successo!'' @ NL @ NL
            @ str_join NL
                [e_mail @ '' **c@x.com**'',
                 ''   Nome: N/A'',
                 ''   ID: N/A'',
                 ''   Stato: '' @ green_circle @ '' Attivo'',
                 ''   Admin: No'',
                 ''   Ultimo accesso: Mai'',
                 ''   Creazione: N/A'',
                 ''   Unit'' @ a_grave @ '' org.: /'']
            @ NL @ NL
            @ key_sign @ '' **Password temporanea**: `Init1!pw`'' @ NL
            @ NL @ NL
            @ ''Comunica le credenziali al cliente in modo sicuro.'')"
proof -
  let ?p = "\<lparr>primary_email = ''c@x.com'', first_name = ''C'', last_name = ''D'',
         password = Some ''Init1!pw'', org_unit_path = Some ''/'',
         change_password_at_next_login = Some False,
         recovery_email = None, recovery_phone = None\<rparr>"
  define block where "block = str_join NL
                [e_mail @ '' **c@x.com**'',
                 ''   Nome: N/A'',
                 ''   ID: N/A'',
                 ''   Stato: '' @ green_circle @ '' Attivo'',
                 ''   Admin: No'',
                 ''   Ultimo accesso: Mai'',
                 ''   Creazione: N/A'',
                 ''   Unit'' @ a_grave @ '' org.: /'']"
  have s: "get_directory_service scripted_env = Inr ()" by simp
  have f: "change_password_at_next_login ?p \<noteq> Some True" by simp
  have pw: "chosen_password scripted_env ?p = ''Init1!pw''"
    by (simp add: chosen_password_def)
  have x: "execute scripted_env [] (UsersInsert (create_user_body ?p (chosen_password scripted_env ?p)))
      = Inr (create_user_body ?p (chosen_password scripted_env ?p))"
    by (simp add: scripted_execute_def)
  have b: "format_user scripted_env (create_user_body ?p (chosen_password scripted_env ?p))
      = Inr block"
    by (simp add: pw format_user_def create_user_body_def py_get_def py_str_def
        opt_bool_def opt_str_def str_given_def block_def)
  from create_user_warning_line [OF s x b] f
  have "snd (gw_create_user scripted_env ?p)
      = Inr (check_mark @ '' Utente creato con successo!'' @ NL @ NL
             @ block @ NL @ NL
             @ key_sign @ '' **Password temporanea**: `'' @ chosen_password scripted_env ?p
             @ ''`'' @ NL
             @ NL @ NL
             @ ''Comunica le credenziali al cliente in modo sicuro.'')"
    by (rule conjunct1 [THEN mp])
  then have "snd (gw_create_user scripted_env ?p)
      = Inr (check_mark @ '' Utente creato con successo!'' @ NL @ NL
             @ block @ NL @ NL
             @ key_sign @ '' **Password temporanea**: `Init1!pw`'' @ NL
             @ NL @ NL
             @ ''Comunica le credenziali al cliente in modo sicuro.'')"
    by (simp add: pw)
  with s f show ?thesis
    unfolding block_def by (intro conjI)
qed

end
